theory Spec2Isabelle
  imports Complex_Main
begin

section \<open>KQML terms and Python values\<close>

text \<open>
  The agent module \<^verbatim>\<open>companionsKQMLModule.py\<close> builds on three classes of the pykqml
  library: \<^verbatim>\<open>KQMLToken\<close>, \<^verbatim>\<open>KQMLString\<close> and \<^verbatim>\<open>KQMLList\<close>. A term of the wire
  syntax is a tree over them. Python strings are modelled by \<^typ>\<open>string\<close>; a character
  stands for a code point below 256.
\<close>

datatype kqml = KQMLToken string | KQMLString string | KQMLList "kqml list"

text \<open>The exceptions that the modelled functions raise.\<close>

datatype exn =
    IndexError | KeyError | TypeError | ValueError | AssertionError | AttributeError
  | JSONDecodeError | OSError

fun join_sp :: "string list \<Rightarrow> string" where
  "join_sp [] = []"
| "join_sp [s] = s"
| "join_sp (s # t # ss) = s @ CHR '' '' # join_sp (t # ss)"

text \<open>
  \<^verbatim>\<open>str(obj)\<close> of the library's classes: a token prints its data, a string prints its
  data in double quotes with every double quote escaped by a backslash, a list prints
  its elements separated by single spaces in parentheses.
\<close>

fun to_string :: "kqml \<Rightarrow> string" where
  "to_string (KQMLToken s) = s"
| "to_string (KQMLString s) =
     CHR 0x22 # concat (map (\<lambda>c. if c = CHR 0x22 then [CHR 0x5C, c] else [c]) s) @ [CHR 0x22]"
| "to_string (KQMLList ts) = CHR ''('' # join_sp (map to_string ts) @ [CHR '')'']"

text \<open>
  The native values \<^verbatim>\<open>listify\<close> inspects with \<^verbatim>\<open>isinstance\<close>: lists, tuples, strings,
  dictionaries (their items in insertion order) and booleans. Everything else is
  converted through \<^verbatim>\<open>str\<close>: integers, \<^verbatim>\<open>None\<close>, objects of the KQML classes, and any
  other object, which \<open>PyOther\<close> carries by its \<^verbatim>\<open>str\<close> form.
\<close>

datatype pyval =
    PyList "pyval list"
  | PyTuple "pyval list"
  | PyStr string
  | PyDict "(pyval \<times> pyval) list"
  | PyBool bool
  | PyInt int
  | PyNone
  | PyKQML kqml
  | PyOther string

function str_nat :: "nat \<Rightarrow> string" where
  "str_nat n = (if n < 10 then [''0123456789'' ! n] else str_nat (n div 10) @ [''0123456789'' ! (n mod 10)])"
  by pat_completeness auto
termination
  by (relation "measure (\<lambda>n. n)") auto

definition str_int :: "int \<Rightarrow> string" where
  "str_int i = (if i < 0 then CHR ''-'' # str_nat (nat (- i)) else str_nat (nat i))"

text \<open>\<^verbatim>\<open>str(x)\<close> for the values that reach the last line of \<^verbatim>\<open>listify\<close>.\<close>

fun py_str :: "pyval \<Rightarrow> string" where
  "py_str (PyInt i) = str_int i"
| "py_str PyNone = ''None''"
| "py_str (PyKQML k) = to_string k"
| "py_str (PyOther s) = s"
| "py_str (PyBool b) = (if b then ''True'' else ''False'')"
| "py_str (PyStr s) = s"
| "py_str _ = []"

section \<open>The marshaller: listify\<close>

text \<open>
  \<^verbatim>\<open>str.isspace\<close> on code points below 256, and \<^verbatim>\<open>str.split()\<close> without arguments:
  the maximal runs of characters that are not whitespace.
\<close>

definition isspace :: "char \<Rightarrow> bool" where
  "isspace c = (of_char c \<in> {9, 10, 11, 12, 13, 28, 29, 30, 31, 32, 133, 160 :: nat})"

fun split_from :: "string \<Rightarrow> string \<Rightarrow> string list" where
  "split_from cur [] = (if cur = [] then [] else [cur])"
| "split_from cur (c # cs) =
     (if isspace c then (if cur = [] then split_from [] cs else cur # split_from [] cs)
      else split_from (cur @ [c]) cs)"

definition split :: "string \<Rightarrow> string list" where
  "split s = split_from [] s"

lemma split_from_length:
  "t \<in> set (split_from cur s) \<Longrightarrow> length t \<le> length cur + length s"
proof (induction s arbitrary: cur)
  case Nil
  then show ?case by (simp split: if_splits)
next
  case (Cons c cs)
  show ?case
  proof (cases "isspace c")
    case False
    with Cons.prems have "t \<in> set (split_from (cur @ [c]) cs)" by simp
    from Cons.IH [OF this] show ?thesis by simp
  next
    case True
    show ?thesis
    proof (cases "t = cur")
      case True
      then show ?thesis by simp
    next
      case False
      with Cons.prems \<open>isspace c\<close> have "t \<in> set (split_from [] cs)"
        by (simp split: if_splits)
      from Cons.IH [OF this] show ?thesis by simp
    qed
  qed
qed

lemma split_length: "t \<in> set (split s) \<Longrightarrow> length t \<le> length s"
  using split_from_length [of t "[]" s] by (simp add: split_def)

text \<open>
  The \<^verbatim>\<open>str\<close> branch of \<^verbatim>\<open>listify\<close>. The source calls \<^verbatim>\<open>listify\<close> again on every piece of
  the split, which arrives in this branch again since a piece is a string.
  \<^verbatim>\<open>possible_list[1:-1]\<close> is \<open>butlast (tl s)\<close>; the test \<^verbatim>\<open>' ' in possible_list\<close> has made
  the string non-empty before its first and last characters are read.
\<close>

function listify_str :: "string \<Rightarrow> kqml" where
  "listify_str s =
     (if CHR '' '' \<in> set s then
        (if hd s = CHR ''('' \<and> last s = CHR '')''
         then KQMLList (map listify_str (split (butlast (tl s))))
         else KQMLString s)
      else KQMLToken s)"
  by pat_completeness auto
termination
proof (relation "measure length")
  show "wf (measure length)" by simp
next
  fix s :: string and t :: string
  assume sp: "CHR '' '' \<in> set s" and t: "t \<in> set (split (butlast (tl s)))"
  from sp have "s \<noteq> []" by auto
  then have "length (butlast (tl s)) < length s" by (cases s) auto
  with split_length [OF t] show "(t, s) \<in> measure length" by simp
qed

text \<open>
  \<^verbatim>\<open>listify\<close>, in the order of its \<^verbatim>\<open>isinstance\<close> tests: list, tuple (of length two, or
  any other length), str, dict, bool, anything else. A dictionary maps each item,
  a tuple of length two, through the tuple branch.
\<close>

fun listify :: "pyval \<Rightarrow> kqml" where
  "listify (PyList xs) = KQMLList (map listify xs)"
| "listify (PyTuple [car, cdr]) = KQMLList [listify car, KQMLToken ''.'', listify cdr]"
| "listify (PyTuple xs) = KQMLList (map listify xs)"
| "listify (PyStr s) = listify_str s"
| "listify (PyDict kvs) =
     KQMLList (map (\<lambda>(k, v). KQMLList [listify k, KQMLToken ''.'', listify v]) kvs)"
| "listify (PyBool b) = (if b then KQMLToken ''t'' else KQMLToken ''nil'')"
| "listify v = KQMLToken (py_str v)"

declare listify_str.simps [simp del]

section \<open>Query replies: response_to_query\<close>

text \<open>
  The test \<^verbatim>\<open>str(each[0]) == '?'\<close> on an argument of the query. Indexing a token or a
  string reads its data, a character; indexing a list reads its first element, whose
  \<^verbatim>\<open>str\<close> form is compared. Indexing empty data raises \<^verbatim>\<open>IndexError\<close>.
\<close>

fun is_variable :: "kqml \<Rightarrow> exn + bool" where
  "is_variable (KQMLToken []) = Inl IndexError"
| "is_variable (KQMLToken (c # cs)) = Inr (c = CHR ''?'')"
| "is_variable (KQMLString []) = Inl IndexError"
| "is_variable (KQMLString (c # cs)) = Inr (c = CHR ''?'')"
| "is_variable (KQMLList []) = Inl IndexError"
| "is_variable (KQMLList (t # ts)) = Inr (to_string t = ''?'')"

text \<open>\<^verbatim>\<open>results_list[result_index]\<close> with an index that is never negative.\<close>

definition index_result :: "pyval list \<Rightarrow> nat \<Rightarrow> exn + pyval" where
  "index_result results_list result_index =
     (if result_index < length results_list then Inr (results_list ! result_index)
      else Inl IndexError)"

text \<open>
  The value bound to \<^verbatim>\<open>pattern\<close> for a variable argument at position \<open>i\<close> of the
  enumeration: the slice \<^verbatim>\<open>results_list[result_index:]\<close> when \<^verbatim>\<open>i == arg_len\<close> and
  \<^verbatim>\<open>result_index < len(results_list) - 1\<close>, the single element otherwise.
\<close>

definition pattern_for :: "nat \<Rightarrow> nat \<Rightarrow> pyval list \<Rightarrow> nat \<Rightarrow> exn + pyval" where
  "pattern_for arg_len i results_list result_index =
     (if i = arg_len \<and> int result_index < int (length results_list) - 1
      then Inr (PyList (drop result_index results_list))
      else index_result results_list result_index)"

text \<open>
  The loop \<^verbatim>\<open>for i, each in enumerate(content.data[1:])\<close>: \<open>pat\<close> is the boolean that
  \<^verbatim>\<open>response_type\<close> has become, \<open>i\<close> the position of the next argument,
  \<open>result_index\<close> and \<open>reply_content\<close> the loop's two variables.
\<close>

fun query_loop ::
  "bool \<Rightarrow> pyval list \<Rightarrow> nat \<Rightarrow> nat \<Rightarrow> kqml list \<Rightarrow> nat \<Rightarrow> kqml list \<Rightarrow> exn + kqml list" where
  "query_loop pat results_list arg_len i [] result_index reply_content = Inr reply_content"
| "query_loop pat results_list arg_len i (each # rest) result_index reply_content =
     (case is_variable each of
        Inl e \<Rightarrow> Inl e
      | Inr True \<Rightarrow>
          (case pattern_for arg_len i results_list result_index of
             Inl e \<Rightarrow> Inl e
           | Inr pattern \<Rightarrow>
               query_loop pat results_list arg_len (Suc i) rest (Suc result_index)
                 (reply_content @
                    [listify (if pat then pattern else PyTuple [PyKQML each, pattern])]))
      | Inr False \<Rightarrow>
          (if pat
           then query_loop pat results_list arg_len (Suc i) rest result_index
                  (reply_content @ [each])
           else query_loop pat results_list arg_len (Suc i) rest result_index reply_content))"

text \<open>
  \<^verbatim>\<open>response_to_query\<close> up to the reply content it builds. \<open>response_type\<close> is \<open>None\<close>
  or a string; \<open>head\<close> is \<^verbatim>\<open>content.head()\<close> and \<open>args\<close> is \<^verbatim>\<open>content.data[1:]\<close>. The
  content is then printed into a \<^verbatim>\<open>tell\<close> message and handed to the library's
  \<^verbatim>\<open>reply\<close>.
\<close>

definition is_pattern :: "string option \<Rightarrow> bool" where
  "is_pattern response_type = (response_type = None \<or> response_type = Some '':pattern'')"

definition results_list_of :: "pyval \<Rightarrow> pyval list" where
  "results_list_of results = (case results of PyList xs \<Rightarrow> xs | _ \<Rightarrow> [results])"

definition response_to_query ::
  "string \<Rightarrow> kqml list \<Rightarrow> pyval \<Rightarrow> string option \<Rightarrow> exn + kqml" where
  "response_to_query head args results response_type =
     (case query_loop (is_pattern response_type) (results_list_of results) (length args)
             0 args 0 [KQMLToken head] of
        Inl e \<Rightarrow> Inl e
      | Inr reply_content \<Rightarrow> Inr (KQMLList reply_content))"

definition reply_msg :: "string \<Rightarrow> kqml \<Rightarrow> string" where
  "reply_msg name reply_content =
     ''(tell :sender '' @ name @ '' :content '' @ to_string reply_content @ '')''"

section \<open>The port registry file: get_port\<close>

text \<open>
  What \<^verbatim>\<open>json.loads\<close> returns: a dictionary (its items, with distinct keys), a list, a
  string, an integer, a float (a finite one by its exact value), a boolean or \<^verbatim>\<open>None\<close>.
  \<open>JNull\<close> is Python's \<^verbatim>\<open>None\<close>, which is also what \<^verbatim>\<open>get_port\<close> returns for an absent
  port.
\<close>

datatype json =
    JObject "(string \<times> json) list"
  | JArray "json list"
  | JString string
  | JInt int
  | JFloat rat
  | JNonFinite
  | JBool bool
  | JNull

text \<open>\<^verbatim>\<open>sub in s\<close> on strings: \<open>sub\<close> occurs in \<open>s\<close> as a contiguous run.\<close>

fun py_in_str :: "string \<Rightarrow> string \<Rightarrow> bool" where
  "py_in_str sub [] = (sub = [])"
| "py_in_str sub (c # cs) = (take (length sub) (c # cs) = sub \<or> py_in_str sub cs)"

text \<open>
  \<^verbatim>\<open>key in port_dict\<close> and \<^verbatim>\<open>port_dict[key]\<close> for a string \<open>key\<close>, on each shape of decoded
  value: a dictionary tests and reads its keys, a list compares its elements with the
  key and cannot be indexed by a string, a string tests for a substring and cannot be
  indexed by a string, and the other values support neither operation.
\<close>

fun py_contains :: "string \<Rightarrow> json \<Rightarrow> exn + bool" where
  "py_contains key (JObject items) = Inr (map_of items key \<noteq> None)"
| "py_contains key (JArray xs) = Inr (List.member xs (JString key))"
| "py_contains key (JString s) = Inr (py_in_str key s)"
| "py_contains key v = Inl TypeError"

fun py_getitem :: "json \<Rightarrow> string \<Rightarrow> exn + json" where
  "py_getitem (JObject items) key =
     (case map_of items key of None \<Rightarrow> Inl KeyError | Some v \<Rightarrow> Inr v)"
| "py_getitem v key = Inl TypeError"

text \<open>\<^verbatim>\<open>process_pid == value\<close> for an integer \<^verbatim>\<open>process_pid\<close>: numbers compare by value.\<close>

fun py_eq_int :: "int \<Rightarrow> json \<Rightarrow> bool" where
  "py_eq_int n (JInt m) = (n = m)"
| "py_eq_int n (JFloat q) = (of_int n = q)"
| "py_eq_int n (JBool b) = (n = (if b then 1 else 0))"
| "py_eq_int n v = False"

text \<open>The truth value of a decoded value, as \<^verbatim>\<open>if potential_port:\<close> reads it.\<close>

fun truthy :: "json \<Rightarrow> bool" where
  "truthy (JObject items) = (items \<noteq> [])"
| "truthy (JArray xs) = (xs \<noteq> [])"
| "truthy (JString s) = (s \<noteq> [])"
| "truthy (JInt n) = (n \<noteq> 0)"
| "truthy (JFloat q) = (q \<noteq> 0)"
| "truthy JNonFinite = True"
| "truthy (JBool b) = b"
| "truthy JNull = False"

text \<open>
  A path is its anchor (drive and root) and its components. \<^verbatim>\<open>with_name\<close> replaces the
  last component and raises \<^verbatim>\<open>ValueError\<close> when there is none; \<^verbatim>\<open>/\<close> appends a
  component.
\<close>

type_synonym path = "string \<times> string list"

definition with_name :: "path \<Rightarrow> string \<Rightarrow> exn + path" where
  "with_name p n = (if snd p = [] then Inl ValueError else Inr (fst p, butlast (snd p) @ [n]))"

definition joinpath :: "path \<Rightarrow> string \<Rightarrow> path" where
  "joinpath p n = (fst p, snd p @ [n])"

datatype entry = File string | Directory

text \<open>
  \<^verbatim>\<open>readline()\<close> on a file opened in text mode: the first line with its line end, which
  universal newlines turn into a line feed, or the whole content when it has none.
\<close>

fun readline :: "string \<Rightarrow> string" where
  "readline [] = []"
| "readline (c # cs) = (if c = CHR 0x0A \<or> c = CHR 0x0D then [CHR 0x0A] else c # readline cs)"

text \<open>
  \<^verbatim>\<open>get_port\<close>. The decoder \<^verbatim>\<open>json.loads\<close> (imported as \<^verbatim>\<open>load_dict\<close>) belongs to the
  standard library and is a parameter: it returns a decoded value or raises. \<open>files\<close> is
  the file system; opening a directory raises \<^verbatim>\<open>OSError\<close>.
\<close>

definition get_port ::
  "(string \<Rightarrow> exn + json) \<Rightarrow> (path \<Rightarrow> entry option) \<Rightarrow> path \<Rightarrow> int \<Rightarrow> bool \<Rightarrow> exn + json" where
  "get_port load_dict files portnum_path process_pid verify =
     (case files portnum_path of
        None \<Rightarrow> Inr JNull
      | Some Directory \<Rightarrow> Inl OSError
      | Some (File content) \<Rightarrow>
          (case load_dict (readline content) of
             Inl e \<Rightarrow> Inl e
           | Inr port_dict \<Rightarrow>
               (case py_contains ''port'' port_dict of
                  Inl e \<Rightarrow> Inl e
                | Inr False \<Rightarrow> Inr JNull
                | Inr True \<Rightarrow>
                    (if verify then
                       (case py_contains ''pid'' port_dict of
                          Inl e \<Rightarrow> Inl e
                        | Inr False \<Rightarrow> Inl AssertionError
                        | Inr True \<Rightarrow>
                            (case py_getitem port_dict ''pid'' of
                               Inl e \<Rightarrow> Inl e
                             | Inr v \<Rightarrow>
                                 (if py_eq_int process_pid v
                                  then py_getitem port_dict ''port''
                                  else Inl AssertionError)))
                     else py_getitem port_dict ''port''))))"

section \<open>Discovery: check_for_companions\<close>

definition PORTNUM :: string where
  "PORTNUM = ''portnum.dat''"

definition COMPANIONS_EXES :: "string list" where
  "COMPANIONS_EXES = [''CompanionsMicroServer64.exe'', ''CompanionsServer64.exe'']"

text \<open>
  The \<^verbatim>\<open>info\<close> dictionary of a process that \<^verbatim>\<open>process_iter(attrs=['pid', 'name', 'exe'])\<close>
  yields. The library stores \<^verbatim>\<open>None\<close> for a name or an executable it may not read.
\<close>

record process =
  pid :: int
  name :: "string option"
  exe :: "path option"

text \<open>
  \<^verbatim>\<open>next((p.info for p in processes if name in p.info['name']), None)\<close>. \<^verbatim>\<open>processes\<close> is
  an iterator: the search takes processes from it up to and including the first match,
  and what it has taken is gone for every later search. The function returns the match
  and the processes still to come. \<^verbatim>\<open>name in None\<close> raises \<^verbatim>\<open>TypeError\<close>.
\<close>

fun next_named :: "string \<Rightarrow> process list \<Rightarrow> exn + (process option \<times> process list)" where
  "next_named n [] = Inr (None, [])"
| "next_named n (p # ps) =
     (case name p of
        None \<Rightarrow> Inl TypeError
      | Some process_name \<Rightarrow>
          (if py_in_str n process_name then Inr (Some p, ps) else next_named n ps))"

text \<open>The loop \<^verbatim>\<open>for name in COMPANIONS_EXES\<close> with its \<^verbatim>\<open>break\<close> at the first match.\<close>

fun find_companion ::
  "string list \<Rightarrow> process list \<Rightarrow> exn + (process option \<times> process list)" where
  "find_companion [] processes = Inr (None, processes)"
| "find_companion (n # names) processes =
     (case next_named n processes of
        Inl e \<Rightarrow> Inl e
      | Inr (Some process, rest) \<Rightarrow> Inr (Some process, rest)
      | Inr (None, rest) \<Rightarrow> find_companion names rest)"

text \<open>The loop over \<^verbatim>\<open>potential_roots\<close>: the first root with an entry \<^verbatim>\<open>qrg\<close>.\<close>

fun find_qrg :: "(path \<Rightarrow> entry option) \<Rightarrow> path list \<Rightarrow> path option" where
  "find_qrg files [] = None"
| "find_qrg files (r # roots) =
     (if files (joinpath r ''qrg'') \<noteq> None then Some (joinpath r ''qrg'')
      else find_qrg files roots)"

record system =
  processes :: "process list"
  mountpoints :: "path list"
  home :: path
  files :: "path \<Rightarrow> entry option"

text \<open>The port that the first step of \<^verbatim>\<open>check_for_companions\<close> reads for \<open>companion\<close>.\<close>

definition companion_port ::
  "(string \<Rightarrow> exn + json) \<Rightarrow> system \<Rightarrow> process option \<Rightarrow> bool \<Rightarrow> exn + json" where
  "companion_port load_dict sys companion verify =
     (case companion of
        None \<Rightarrow> Inr JNull
      | Some c \<Rightarrow>
          (case exe c of
             None \<Rightarrow> Inl TypeError
           | Some exe_path \<Rightarrow>
               (case with_name exe_path PORTNUM of
                  Inl e \<Rightarrow> Inl e
                | Inr portnum_path \<Rightarrow>
                    get_port load_dict (files sys) portnum_path (pid c) verify)))"

definition check_for_companions ::
  "(string \<Rightarrow> exn + json) \<Rightarrow> system \<Rightarrow> bool \<Rightarrow> exn + json" where
  "check_for_companions load_dict sys verify =
     (case find_companion COMPANIONS_EXES (processes sys) of
        Inl e \<Rightarrow> Inl e
      | Inr (companion, rest) \<Rightarrow>
          (case companion_port load_dict sys companion verify of
             Inl e \<Rightarrow> Inl e
           | Inr potential_port \<Rightarrow>
               (if truthy potential_port then Inr potential_port
                else
                  (case next_named ''allegro.exe'' rest of
                     Inl e \<Rightarrow> Inl e
                   | Inr (allegro, _) \<Rightarrow>
                       (case (find_qrg (files sys) (mountpoints sys @ [home sys]), allegro) of
                          (Some qrg_root, Some a) \<Rightarrow>
                            get_port load_dict (files sys)
                              (joinpath (joinpath (joinpath qrg_root ''companions'') ''v1'') PORTNUM)
                              (pid a) verify
                        | _ \<Rightarrow> Inr potential_port)))))"

section \<open>The agent: sockets and state\<close>

text \<open>
  What the operating system has been asked to do, in order. Sockets are numbered as they
  are created or accepted.
\<close>

datatype event =
    SocketCreated nat | Connected nat | Written nat string | Flushed nat
  | ShutDown nat | Closed nat | Accepted nat

text \<open>Where the listener thread stands in the loop of \<^verbatim>\<open>listen\<close>.\<close>

datatype listener_pc = LoopHead | Accepting | Submitted | Finished

text \<open>
  The attributes of a \<^verbatim>\<open>CompanionsKQMLModule\<close> that the modelled methods read or assign,
  followed by the part of the operating system they act on: \<open>opened\<close> holds the sockets
  created or accepted and not closed by a call of \<^verbatim>\<open>close\<close>. A writer (\<open>out\<close>,
  \<open>local_out\<close>) and a dispatcher are named by the socket they wrap.
\<close>

record agent =
  send_socket :: "nat option"
  out :: "nat option"
  local_out :: "nat option"
  dispatcher :: "nat option"
  ready :: bool
  state :: string
  listener :: listener_pc
  opened :: "nat set"
  next_fd :: nat
  trace :: "event list"

text \<open>
  What the operating system and the message's \<^verbatim>\<open>write\<close> answer during one call of
  \<^verbatim>\<open>send\<close>: for each operation, \<open>None\<close> when it returns and the exception when it raises.
  \<^verbatim>\<open>IOError\<close> is \<^verbatim>\<open>OSError\<close> in Python 3.
\<close>

record outcomes =
  socket_raises :: "exn option"
  connect_raises :: "exn option"
  msg_write_raises :: "exn option"
  newline_raises :: "exn option"
  flush_raises :: "exn option"
  shutdown_raises :: "exn option"

text \<open>The \<^verbatim>\<open>assert self.out is not None\<close> that ends \<^verbatim>\<open>connect\<close>.\<close>

definition assert_out :: "agent \<Rightarrow> (exn + unit) \<times> agent" where
  "assert_out a = (if out a = None then (Inl AssertionError, a) else (Inr (), a))"

text \<open>
  \<^verbatim>\<open>connect\<close>: the \<^verbatim>\<open>try\<close> block assigns \<^verbatim>\<open>send_socket\<close> as soon as \<^verbatim>\<open>socket()\<close> returns and
  \<^verbatim>\<open>out\<close> only after the connection is made; \<^verbatim>\<open>except OSError\<close> logs and goes on to the
  assertion, any other exception leaves the method.
\<close>

definition connect :: "outcomes \<Rightarrow> agent \<Rightarrow> (exn + unit) \<times> agent" where
  "connect io a =
     (case socket_raises io of
        Some e \<Rightarrow> (if e = OSError then assert_out a else (Inl e, a))
      | None \<Rightarrow>
          (let s = next_fd a;
               a1 = a\<lparr>send_socket := Some s, opened := insert s (opened a),
                      next_fd := Suc s, trace := trace a @ [SocketCreated s]\<rparr>
           in case connect_raises io of
                Some e \<Rightarrow> (if e = OSError then assert_out a1 else (Inl e, a1))
              | None \<Rightarrow> assert_out (a1\<lparr>out := Some s, trace := trace a1 @ [Connected s]\<rparr>)))"




text \<open>
  The agent as \<^verbatim>\<open>__init__\<close> leaves it when it starts the listener thread: the listening
  socket is socket 0, \<^verbatim>\<open>ready\<close> is set and \<^verbatim>\<open>state\<close> is \<^verbatim>\<open>'idle'\<close>.
\<close>

definition init_agent :: agent where
  "init_agent =
     \<lparr>send_socket = None, out = None, local_out = None, dispatcher = None, ready = True,
      state = ''idle'', listener = LoopHead, opened = {0}, next_fd = 1,
      trace = [SocketCreated 0]\<rparr>"







section \<open>The specification's reading of a query reply, and sample data\<close>

text \<open>
  The specification's walk over the arguments of a query, written from its words: a
  variable argument takes the next result and gives the converted result (pattern
  mode) or the dotted pair of the argument and the converted result (bind mode); any
  other argument is copied (pattern mode) or dropped (bind mode). A dotted pair holds
  its two parts converted, around the token \<^verbatim>\<open>.\<close>; the converted argument is the token
  that prints as the argument does. With no result left the walk stops; it is only used
  where the results suffice.
\<close>

definition dotted_pair :: "kqml \<Rightarrow> kqml \<Rightarrow> kqml" where
  "dotted_pair car cdr = KQMLList [car, KQMLToken ''.'', cdr]"

fun spec_reply_items :: "bool \<Rightarrow> kqml list \<Rightarrow> pyval list \<Rightarrow> kqml list" where
  "spec_reply_items pat [] rs = []"
| "spec_reply_items pat (a # as) rs =
     (if is_variable a = Inr True then
        (case rs of
           [] \<Rightarrow> []
         | r # rs' \<Rightarrow>
             (if pat then listify r else dotted_pair (listify (PyKQML a)) (listify r))
             # spec_reply_items pat as rs')
      else if pat then a # spec_reply_items pat as rs
      else spec_reply_items pat as rs)"

text \<open>The arguments that the test of the loop takes for variables.\<close>

definition variables :: "kqml list \<Rightarrow> kqml list" where
  "variables args = filter (\<lambda>a. is_variable a = Inr True) args"

text \<open>An argument whose first character or element can be read.\<close>

fun indexable :: "kqml \<Rightarrow> bool" where
  "indexable (KQMLToken s) = (s \<noteq> [])"
| "indexable (KQMLString s) = (s \<noteq> [])"
| "indexable (KQMLList ts) = (ts \<noteq> [])"

text \<open>
  A decoder for the examples: it knows three records and fails on every other line, as
  \<^verbatim>\<open>json.loads\<close> fails on the line \<^verbatim>\<open>not json\<close>, the only other line it is applied to.
\<close>

definition load_dict_sample :: "string \<Rightarrow> exn + json" where
  \<open>load_dict_sample line =
     (if line = ''{"port": 9000}'' then Inr (JObject [(''port'', JInt 9000)])
      else if line = ''{"pid": 7, "port": 9000}''
      then Inr (JObject [(''pid'', JInt 7), (''port'', JInt 9000)])
      else if line = ''{"pid": 7}'' then Inr (JObject [(''pid'', JInt 7)])
      else Inl JSONDecodeError)\<close>

text \<open>A file system for the examples: five registry files and one \<^verbatim>\<open>qrg\<close> directory.\<close>

definition sample_files :: "path \<Rightarrow> entry option" where
  \<open>sample_files p =
     (if p = (''C:/'', [''companions'', ''portnum.dat'']) then Some (File ''{"port": 9000}'')
      else if p = (''C:/'', [''broken'', ''portnum.dat'']) then Some (File ''not json'')
      else if p = (''C:/'', [''noport'', ''portnum.dat'']) then Some (File ''{"pid": 7}'')
      else if p = (''C:/'', [''full'', ''portnum.dat''])
      then Some (File ''{"pid": 7, "port": 9000}'')
      else if p = (''C:/'', [''qrg'']) then Some Directory
      else if p = (''C:/'', [''qrg'', ''companions'', ''v1'', ''portnum.dat''])
      then Some (File ''{"pid": 7, "port": 9000}'')
      else None)\<close>

text \<open>
  Three machines with that file system: one runs only the second executable of
  \<open>COMPANIONS_EXES\<close>, one only the first, one only the development executable.
\<close>

definition server_only :: system where
  "server_only =
     \<lparr>processes =
        [\<lparr>pid = 7, name = Some ''CompanionsServer64.exe'',
          exe = Some (''C:/'', [''companions'', ''CompanionsServer64.exe''])\<rparr>],
      mountpoints = [(''D:/'', [])], home = (''C:/'', [''Users'', ''me'']),
      files = sample_files\<rparr>"

definition micro_server_only :: system where
  "micro_server_only =
     \<lparr>processes =
        [\<lparr>pid = 7, name = Some ''CompanionsMicroServer64.exe'',
          exe = Some (''C:/'', [''companions'', ''CompanionsMicroServer64.exe''])\<rparr>],
      mountpoints = [(''D:/'', [])], home = (''C:/'', [''Users'', ''me'']),
      files = sample_files\<rparr>"

definition allegro_only :: system where
  "allegro_only =
     \<lparr>processes =
        [\<lparr>pid = 7, name = Some ''allegro.exe'',
          exe = Some (''C:/'', [''acl'', ''allegro.exe''])\<rparr>],
      mountpoints = [(''C:/'', [])], home = (''C:/'', [''Users'', ''me'']),
      files = sample_files\<rparr>"

text \<open>Every operation returns; and a message to send.\<close>

definition all_return :: outcomes where
  "all_return =
     \<lparr>socket_raises = None, connect_raises = None, msg_write_raises = None,
      newline_raises = None, flush_raises = None, shutdown_raises = None\<rparr>"




section \<open>Properties of the marshaller\<close>

lemma isspace_blank: "isspace (CHR '' '')"
  by (simp add: isspace_def)

lemma split_from_no_space:
  "t \<in> set (split_from cur s) \<Longrightarrow> \<forall>c\<in>set cur. \<not> isspace c \<Longrightarrow> \<forall>c\<in>set t. \<not> isspace c"
proof (induction s arbitrary: cur)
  case Nil
  then show ?case by (simp split: if_splits)
next
  case (Cons c cs)
  show ?case
  proof (cases "isspace c")
    case False
    with Cons.prems have a: "t \<in> set (split_from (cur @ [c]) cs)"
      and b: "\<forall>d\<in>set (cur @ [c]). \<not> isspace d" by simp_all
    from Cons.IH [OF a b] show ?thesis .
  next
    case True
    show ?thesis
    proof (cases "t = cur")
      case True
      with Cons.prems show ?thesis by simp
    next
      case False
      with Cons.prems \<open>isspace c\<close> have a: "t \<in> set (split_from [] cs)"
        by (simp split: if_splits)
      show ?thesis by (rule Cons.IH [OF a]) simp
    qed
  qed
qed

lemma split_piece_no_blank: "t \<in> set (split s) \<Longrightarrow> CHR '' '' \<notin> set t"
  using split_from_no_space [of t "[]" s] isspace_blank by (auto simp: split_def)

lemma listify_str_token: "CHR '' '' \<notin> set t \<Longrightarrow> listify_str t = KQMLToken t"
  by (simp add: listify_str.simps)

lemma map_listify_str_split: "map listify_str (split s) = map KQMLToken (split s)"
  by (rule map_cong) (simp_all add: listify_str_token split_piece_no_blank)

lemma listify_tuple:
  "listify (PyTuple xs) =
     (if length xs = 2 then KQMLList [listify (xs ! 0), KQMLToken ''.'', listify (xs ! 1)]
      else KQMLList (map listify xs))"
proof (cases xs)
  case Nil
  then show ?thesis by simp
next
  case (Cons a as)
  note outer = this
  show ?thesis
  proof (cases as)
    case Nil
    with outer show ?thesis by simp
  next
    case (Cons b bs)
    with outer show ?thesis by (cases bs) simp_all
  qed
qed

text \<open>
  Claim C3, as the code has it. \<^verbatim>\<open>listify\<close> is total and converts by the first rule that
  matches: a list becomes the list of its converted elements; a tuple of exactly two
  elements becomes the three-element list of the first, the token \<^verbatim>\<open>.\<close> and the second,
  and a tuple of any other length is converted as a list; a string without the space
  character becomes a token, a string with a space that starts with \<^verbatim>\<open>(\<close> and ends with
  \<^verbatim>\<open>)\<close> becomes the list of its inner content split on whitespace, every piece a
  token, and any other string with a space becomes a quoted string; a dictionary
  becomes the list of its items converted as two-element tuples; a boolean becomes the
  token \<^verbatim>\<open>t\<close> or \<^verbatim>\<open>nil\<close>; anything else becomes the token of its \<^verbatim>\<open>str\<close> form. The test
  on a string is for the space character, not for whitespace in general.
\<close>

theorem listify_precedence:
  "listify (PyList xs) = KQMLList (map listify xs)
   \<and> listify (PyTuple ys) =
       (if length ys = 2 then KQMLList [listify (ys ! 0), KQMLToken ''.'', listify (ys ! 1)]
        else KQMLList (map listify ys))
   \<and> listify (PyStr s) =
       (if CHR '' '' \<notin> set s then KQMLToken s
        else if hd s = CHR ''('' \<and> last s = CHR '')''
        then KQMLList (map (\<lambda>t. listify (PyStr t)) (split (butlast (tl s))))
        else KQMLString s)
   \<and> map (\<lambda>t. listify (PyStr t)) (split (butlast (tl s)))
       = map KQMLToken (split (butlast (tl s)))
   \<and> listify (PyDict kvs) = KQMLList (map (\<lambda>(k, v). listify (PyTuple [k, v])) kvs)
   \<and> listify (PyBool b) = KQMLToken (if b then ''t'' else ''nil'')
   \<and> listify (PyInt n) = KQMLToken (str_int n)
   \<and> listify PyNone = KQMLToken ''None''
   \<and> listify (PyKQML k) = KQMLToken (to_string k)
   \<and> listify (PyOther repr) = KQMLToken repr"
proof -
  have str: "listify (PyStr s) =
       (if CHR '' '' \<notin> set s then KQMLToken s
        else if hd s = CHR ''('' \<and> last s = CHR '')''
        then KQMLList (map (\<lambda>t. listify (PyStr t)) (split (butlast (tl s))))
        else KQMLString s)"
    by (simp add: listify_str.simps [of s])
  have pieces: "map (\<lambda>t. listify (PyStr t)) (split (butlast (tl s)))
      = map KQMLToken (split (butlast (tl s)))"
    using map_listify_str_split [of "butlast (tl s)"] by simp
  have dict: "listify (PyDict kvs) = KQMLList (map (\<lambda>(k, v). listify (PyTuple [k, v])) kvs)"
    by (simp add: case_prod_beta)
  show ?thesis using str pieces dict listify_tuple [of ys] by simp
qed

text \<open>
  Claim C3 as stated fails on a string whose only whitespace is a tab: the string
  contains whitespace and is not wrapped in parentheses, so the claim makes it a quoted
  string, and \<^verbatim>\<open>listify\<close> makes it a token.
\<close>

theorem listify_tab_is_token:
  "list_ex isspace [CHR ''a'', CHR 0x09, CHR ''b'']
   \<and> \<not> (hd [CHR ''a'', CHR 0x09, CHR ''b''] = CHR ''(''
        \<and> last [CHR ''a'', CHR 0x09, CHR ''b''] = CHR '')'')
   \<and> listify (PyStr [CHR ''a'', CHR 0x09, CHR ''b'']) = KQMLToken [CHR ''a'', CHR 0x09, CHR ''b'']
   \<and> listify (PyStr [CHR ''a'', CHR 0x09, CHR ''b'']) \<noteq> KQMLString [CHR ''a'', CHR 0x09, CHR ''b'']"
  by (simp add: isspace_def listify_str.simps)

section \<open>Properties of response_to_query\<close>

lemma is_variable_error: "is_variable a = Inl e \<Longrightarrow> e = IndexError"
  by (cases a rule: is_variable.cases) simp_all

lemma is_variable_indexable: "indexable a \<Longrightarrow> is_variable a \<noteq> Inl e"
  by (cases a rule: is_variable.cases) simp_all

lemma pattern_for_inside:
  "i < arg_len \<Longrightarrow> pattern_for arg_len i rs ri = index_result rs ri"
  by (simp add: pattern_for_def)

lemma query_loop_short:
  "i + length args = arg_len \<Longrightarrow> ri \<le> length rs \<Longrightarrow>
   length rs < ri + length (variables args) \<Longrightarrow>
   query_loop pat rs arg_len i args ri rc = Inl IndexError"
proof (induction args arbitrary: i ri rc)
  case Nil
  then show ?case by (simp add: variables_def)
next
  case (Cons each rest)
  from Cons.prems(1) have inside: "i < arg_len" and next_i: "Suc i + length rest = arg_len"
    by simp_all
  show ?case
  proof (cases "is_variable each")
    case (Inl e)
    then show ?thesis using is_variable_error [OF Inl] by simp
  next
    case (Inr b)
    show ?thesis
    proof (cases b)
      case True
      show ?thesis
      proof (cases "ri < length rs")
        case False
        with Inr True inside show ?thesis
          by (simp add: pattern_for_inside index_result_def)
      next
        case in_range: True
        from Cons.prems(3) Inr True have "length rs < Suc ri + length (variables rest)"
          by (simp add: variables_def)
        moreover from in_range have "Suc ri \<le> length rs" by simp
        ultimately have "query_loop pat rs arg_len (Suc i) rest (Suc ri)
            (rc @ [listify (if pat then rs ! ri else PyTuple [PyKQML each, rs ! ri])])
          = Inl IndexError"
          using Cons.IH [OF next_i] by blast
        with Inr True inside in_range show ?thesis
          by (simp add: pattern_for_inside index_result_def)
      qed
    next
      case False
      from Cons.prems(3) Inr False have "length rs < ri + length (variables rest)"
        by (simp add: variables_def)
      from Cons.IH [OF next_i Cons.prems(2) this] Inr False show ?thesis
        by (cases pat) simp_all
    qed
  qed
qed

lemma is_variable_value_indexable: "is_variable a = Inr b \<Longrightarrow> indexable a"
  by (cases a rule: is_variable.cases) simp_all

lemma query_loop_unindexable:
  "i + length args = arg_len \<Longrightarrow> \<not> list_all indexable args \<Longrightarrow>
   query_loop pat rs arg_len i args ri rc = Inl IndexError"
proof (induction args arbitrary: i ri rc)
  case Nil
  then show ?case by simp
next
  case (Cons each rest)
  from Cons.prems(1) have inside: "i < arg_len" and next_i: "Suc i + length rest = arg_len"
    by simp_all
  show ?case
  proof (cases "is_variable each")
    case (Inl e)
    then show ?thesis using is_variable_error [OF Inl] by simp
  next
    case (Inr b)
    with Cons.prems(2) is_variable_value_indexable [OF Inr]
    have rest_bad: "\<not> list_all indexable rest" by simp
    note IH = Cons.IH [OF next_i rest_bad]
    show ?thesis
    proof (cases b)
      case True
      with Inr inside IH show ?thesis
        by (simp add: pattern_for_inside index_result_def)
    next
      case False
      with Inr IH show ?thesis by (cases pat) simp_all
    qed
  qed
qed

lemma query_loop_items:
  "i + length args = arg_len \<Longrightarrow> list_all indexable args \<Longrightarrow>
   ri + length (variables args) \<le> length rs \<Longrightarrow>
   query_loop pat rs arg_len i args ri rc = Inr (rc @ spec_reply_items pat args (drop ri rs))"
proof (induction args arbitrary: i ri rc)
  case Nil
  then show ?case by simp
next
  case (Cons each rest)
  from Cons.prems(1) have inside: "i < arg_len" and next_i: "Suc i + length rest = arg_len"
    by simp_all
  from Cons.prems(2) have wf_rest: "list_all indexable rest"
    and wf_each: "indexable each" by simp_all
  show ?case
  proof (cases "is_variable each")
    case (Inl e)
    with is_variable_indexable [OF wf_each, of e] show ?thesis by simp
  next
    case (Inr b)
    show ?thesis
    proof (cases b)
      case True
      from Cons.prems(3) Inr True have enough: "Suc ri + length (variables rest) \<le> length rs"
        by (simp add: variables_def)
      then have in_range: "ri < length rs" by simp
      then have dr: "drop ri rs = rs ! ri # drop (Suc ri) rs"
        by (simp add: Cons_nth_drop_Suc)
      from Cons.IH [OF next_i wf_rest enough] Inr True inside in_range dr show ?thesis
        by (simp add: pattern_for_inside index_result_def dotted_pair_def)
    next
      case False
      from Cons.prems(3) Inr False have enough: "ri + length (variables rest) \<le> length rs"
        by (simp add: variables_def)
      from Cons.IH [OF next_i wf_rest enough] Inr False show ?thesis
        by (cases pat) simp_all
    qed
  qed
qed

text \<open>
  Claim C1 describes the code's comment (\<^verbatim>\<open>if last argument and there's still more in
  results\<close>), and the code misses it: the test \<^verbatim>\<open>i == arg_len\<close> is never true inside the
  enumeration, so the last variable takes one result like every other. For the query
  \<^verbatim>\<open>(likes ?x)\<close> and the results \<^verbatim>\<open>['alice', 'bob']\<close> the reply content is
  \<^verbatim>\<open>(likes alice)\<close>, not \<^verbatim>\<open>(likes (alice bob))\<close>.
\<close>

theorem last_variable_takes_one_result:
  "response_to_query ''likes'' [KQMLToken ''?x''] (PyList [PyStr ''alice'', PyStr ''bob'']) None
     = Inr (KQMLList [KQMLToken ''likes'', KQMLToken ''alice''])
   \<and> response_to_query ''likes'' [KQMLToken ''?x''] (PyList [PyStr ''alice'', PyStr ''bob'']) None
     \<noteq> Inr (KQMLList [KQMLToken ''likes'', listify (PyList [PyStr ''alice'', PyStr ''bob''])])"
  by (simp add: response_to_query_def is_pattern_def results_list_of_def pattern_for_def
      index_result_def listify_str.simps)

text \<open>
  Claim C2, as the code has it. When every argument can be indexed and the results are
  at least as many as the variable arguments, \<^verbatim>\<open>response_to_query\<close> builds the head
  followed by the specification's walk over the arguments: each variable argument
  takes one result, which is converted and put in its place in pattern mode (no
  response type, or \<^verbatim>\<open>:pattern\<close>) and paired with the argument as a dotted pair in bind
  mode; any other argument is copied in pattern mode and dropped in bind mode. In every
  other case the call raises \<^verbatim>\<open>IndexError\<close> and builds no reply.
\<close>

theorem response_to_query_per_argument:
  "response_to_query head args results response_type =
     (if list_all indexable args \<and> length (variables args) \<le> length (results_list_of results)
      then Inr (KQMLList (KQMLToken head #
             spec_reply_items (response_type = None \<or> response_type = Some '':pattern'') args
               (results_list_of results)))
      else Inl IndexError)"
proof (cases "list_all indexable args")
  case False
  with query_loop_unindexable [where i = 0 and args = args] show ?thesis
    by (simp add: response_to_query_def)
next
  case wf: True
  show ?thesis
  proof (cases "length (variables args) \<le> length (results_list_of results)")
    case True
    with wf query_loop_items [where i = 0 and args = args and ri = 0
        and rs = "results_list_of results"]
    show ?thesis by (simp add: response_to_query_def is_pattern_def)
  next
    case False
    with wf query_loop_short [where i = 0 and args = args and ri = 0
        and rs = "results_list_of results"]
    show ?thesis by (simp add: response_to_query_def)
  qed
qed

text \<open>
  The theorem of C2 at the query \<^verbatim>\<open>(likes ?x mary ?y)\<close> with the results
  \<^verbatim>\<open>['alice', 'bob']\<close>, in pattern mode and in bind mode, and at a query with an empty
  string for an argument.
\<close>

theorem response_to_query_per_argument_witness:
  "response_to_query ''likes'' [KQMLToken ''?x'', KQMLToken ''mary'', KQMLToken ''?y'']
        (PyList [PyStr ''alice'', PyStr ''bob'']) None
      = Inr (KQMLList [KQMLToken ''likes'', KQMLToken ''alice'', KQMLToken ''mary'',
                       KQMLToken ''bob''])
   \<and> response_to_query ''likes'' [KQMLToken ''?x'', KQMLToken ''mary'', KQMLToken ''?y'']
        (PyList [PyStr ''alice'', PyStr ''bob'']) (Some '':bind'')
      = Inr (KQMLList [KQMLToken ''likes'',
                       KQMLList [KQMLToken ''?x'', KQMLToken ''.'', KQMLToken ''alice''],
                       KQMLList [KQMLToken ''?y'', KQMLToken ''.'', KQMLToken ''bob'']])
   \<and> response_to_query ''likes'' [KQMLToken ''?x'', KQMLString []]
        (PyList [PyStr ''alice'', PyStr ''bob'']) None
      = Inl IndexError"
  using
    response_to_query_per_argument [of "''likes''"
      "[KQMLToken ''?x'', KQMLToken ''mary'', KQMLToken ''?y'']"
      "PyList [PyStr ''alice'', PyStr ''bob'']" None]
    response_to_query_per_argument [of "''likes''"
      "[KQMLToken ''?x'', KQMLToken ''mary'', KQMLToken ''?y'']"
      "PyList [PyStr ''alice'', PyStr ''bob'']" "Some '':bind''"]
    response_to_query_per_argument [of "''likes''"
      "[KQMLToken ''?x'', KQMLString []]"
      "PyList [PyStr ''alice'', PyStr ''bob'']" None]
  by (simp add: results_list_of_def variables_def dotted_pair_def listify_str.simps)

text \<open>
  Claim C2 as stated fails when the results run out: for the query \<^verbatim>\<open>(likes ?x ?y)\<close> and
  the results \<^verbatim>\<open>['alice']\<close> in bind mode the variable \<^verbatim>\<open>?y\<close> has no result to take, and
  the call raises \<^verbatim>\<open>IndexError\<close> instead of emitting a dotted pair for it.
\<close>

theorem response_to_query_bind_runs_out:
  "response_to_query ''likes'' [KQMLToken ''?x'', KQMLToken ''?y''] (PyList [PyStr ''alice''])
     (Some '':bind'') = Inl IndexError"
  by (simp add: response_to_query_def is_pattern_def results_list_of_def pattern_for_def
      index_result_def listify_str.simps)

text \<open>
  Claim C10. When the arguments hold more variables than the results list has
  elements, a scalar result counting as a list of one, the call raises \<^verbatim>\<open>IndexError\<close>.
\<close>

theorem response_to_query_too_few_results:
  "length (results_list_of results) < length (variables args) \<Longrightarrow>
   response_to_query head args results response_type = Inl IndexError"
  using query_loop_short [where i = 0 and args = args and ri = 0
      and rs = "results_list_of results"]
  by (simp add: response_to_query_def)

text \<open>The theorem of C10 at the query \<^verbatim>\<open>(likes ?x ?y)\<close> with the scalar result \<^verbatim>\<open>'alice'\<close>.\<close>

theorem response_to_query_too_few_results_witness:
  "length (results_list_of (PyStr ''alice''))
     < length (variables [KQMLToken ''?x'', KQMLToken ''?y''])
   \<and> response_to_query ''likes'' [KQMLToken ''?x'', KQMLToken ''?y''] (PyStr ''alice'') None
       = Inl IndexError"
proof -
  have h: "length (results_list_of (PyStr ''alice''))
      < length (variables [KQMLToken ''?x'', KQMLToken ''?y''])"
    by (simp add: results_list_of_def variables_def)
  from h response_to_query_too_few_results [OF h] show ?thesis by simp
qed

section \<open>Properties of get_port\<close>

lemma readline_readline: "readline (readline content) = readline content"
  by (induction content) auto

text \<open>
  Claim C4, as the code has it. \<^verbatim>\<open>get_port\<close> returns \<^verbatim>\<open>None\<close> when the file does not
  exist; it decodes the first line of the file and nothing else; when the decoder
  raises, the exception leaves \<^verbatim>\<open>get_port\<close>; a decoded dictionary without the key
  \<^verbatim>\<open>port\<close> gives \<^verbatim>\<open>None\<close>; a decoded dictionary with the key \<^verbatim>\<open>port\<close>, read without
  verification, gives the value stored under it.
\<close>

theorem get_port_cases:
  "(fs p = None \<longrightarrow> get_port load_dict fs p process_pid verify = Inr JNull)
   \<and> (fs p = Some (File content) \<longrightarrow>
        get_port load_dict fs p process_pid verify
          = get_port load_dict (fs(p \<mapsto> File (readline content))) p process_pid verify)
   \<and> (fs p = Some (File content) \<and> load_dict (readline content) = Inl e \<longrightarrow>
        get_port load_dict fs p process_pid verify = Inl e)
   \<and> (fs p = Some (File content) \<and> load_dict (readline content) = Inr (JObject port_dict)
        \<and> map_of port_dict ''port'' = None \<longrightarrow>
        get_port load_dict fs p process_pid verify = Inr JNull)
   \<and> (fs p = Some (File content) \<and> load_dict (readline content) = Inr (JObject port_dict)
        \<and> map_of port_dict ''port'' = Some port \<longrightarrow>
        get_port load_dict fs p process_pid False = Inr port)"
  by (simp add: get_port_def readline_readline)

text \<open>
  The theorem of C4 on the sample file system: a missing file, a file whose line does
  not decode, a record without \<^verbatim>\<open>port\<close> and a record with \<^verbatim>\<open>port\<close>.
\<close>

theorem get_port_cases_witness:
  "sample_files (''C:/'', [''missing'', ''portnum.dat'']) = None
   \<and> get_port load_dict_sample sample_files (''C:/'', [''missing'', ''portnum.dat'']) 7 False
       = Inr JNull
   \<and> sample_files (''C:/'', [''broken'', ''portnum.dat'']) = Some (File ''not json'')
   \<and> load_dict_sample (readline ''not json'') = Inl JSONDecodeError
   \<and> get_port load_dict_sample sample_files (''C:/'', [''broken'', ''portnum.dat'']) 7 False
       = Inl JSONDecodeError
   \<and> get_port load_dict_sample sample_files (''C:/'', [''broken'', ''portnum.dat'']) 7 False
       = get_port load_dict_sample
           (sample_files((''C:/'', [''broken'', ''portnum.dat'']) \<mapsto> File (readline ''not json'')))
           (''C:/'', [''broken'', ''portnum.dat'']) 7 False
   \<and> sample_files (''C:/'', [''noport'', ''portnum.dat'']) = Some (File ''{\"pid\": 7}'')
   \<and> load_dict_sample (readline ''{\"pid\": 7}'') = Inr (JObject [(''pid'', JInt 7)])
   \<and> map_of [(''pid'', JInt 7)] ''port'' = None
   \<and> get_port load_dict_sample sample_files (''C:/'', [''noport'', ''portnum.dat'']) 7 False
       = Inr JNull
   \<and> sample_files (''C:/'', [''companions'', ''portnum.dat'']) = Some (File ''{\"port\": 9000}'')
   \<and> load_dict_sample (readline ''{\"port\": 9000}'') = Inr (JObject [(''port'', JInt 9000)])
   \<and> map_of [(''port'', JInt 9000)] ''port'' = Some (JInt 9000)
   \<and> get_port load_dict_sample sample_files (''C:/'', [''companions'', ''portnum.dat'']) 7 False
       = Inr (JInt 9000)"
proof -
  have missing: "sample_files (''C:/'', [''missing'', ''portnum.dat'']) = None"
    by (simp add: sample_files_def)
  have broken: "sample_files (''C:/'', [''broken'', ''portnum.dat'']) = Some (File ''not json'')"
    by (simp add: sample_files_def)
  have broken_line: "load_dict_sample (readline ''not json'') = Inl JSONDecodeError"
    by (simp add: load_dict_sample_def)
  have noport: "sample_files (''C:/'', [''noport'', ''portnum.dat'']) = Some (File ''{\"pid\": 7}'')"
    by (simp add: sample_files_def)
  have noport_line: "load_dict_sample (readline ''{\"pid\": 7}'') = Inr (JObject [(''pid'', JInt 7)])"
    by (simp add: load_dict_sample_def)
  have noport_key: "map_of [(''pid'', JInt 7)] ''port'' = None" by simp
  have valid: "sample_files (''C:/'', [''companions'', ''portnum.dat'']) = Some (File ''{\"port\": 9000}'')"
    by (simp add: sample_files_def)
  have valid_line: "load_dict_sample (readline ''{\"port\": 9000}'') = Inr (JObject [(''port'', JInt 9000)])"
    by (simp add: load_dict_sample_def)
  have valid_key: "map_of [(''port'', JInt 9000)] ''port'' = Some (JInt 9000)" by simp
  note a = get_port_cases [where fs = sample_files
      and p = "(''C:/'', [''missing'', ''portnum.dat''])"
      and load_dict = load_dict_sample and process_pid = 7 and verify = False]
  note b = get_port_cases [where fs = sample_files
      and p = "(''C:/'', [''broken'', ''portnum.dat''])" and content = "''not json''"
      and load_dict = load_dict_sample and process_pid = 7 and verify = False
      and e = JSONDecodeError]
  note c = get_port_cases [where fs = sample_files
      and p = "(''C:/'', [''noport'', ''portnum.dat''])" and content = "''{\"pid\": 7}''"
      and load_dict = load_dict_sample and process_pid = 7 and verify = False
      and port_dict = "[(''pid'', JInt 7)]"]
  note d = get_port_cases [where fs = sample_files
      and p = "(''C:/'', [''companions'', ''portnum.dat''])"
      and content = "''{\"port\": 9000}''"
      and load_dict = load_dict_sample and process_pid = 7 and verify = False
      and port_dict = "[(''port'', JInt 9000)]" and port = "JInt 9000"]
  from a missing have 1: "get_port load_dict_sample sample_files
      (''C:/'', [''missing'', ''portnum.dat'']) 7 False = Inr JNull" by blast
  from b broken broken_line have 2: "get_port load_dict_sample sample_files
      (''C:/'', [''broken'', ''portnum.dat'']) 7 False = Inl JSONDecodeError" by blast
  from b broken have 3: "get_port load_dict_sample sample_files
      (''C:/'', [''broken'', ''portnum.dat'']) 7 False
       = get_port load_dict_sample
           (sample_files((''C:/'', [''broken'', ''portnum.dat'']) \<mapsto> File (readline ''not json'')))
           (''C:/'', [''broken'', ''portnum.dat'']) 7 False" by blast
  from c noport noport_line noport_key have 4: "get_port load_dict_sample sample_files
      (''C:/'', [''noport'', ''portnum.dat'']) 7 False = Inr JNull" by blast
  from d valid valid_line valid_key have 5: "get_port load_dict_sample sample_files
      (''C:/'', [''companions'', ''portnum.dat'']) 7 False = Inr (JInt 9000)" by blast
  from missing broken broken_line noport noport_line noport_key valid valid_line valid_key
    1 2 3 4 5
  show ?thesis by blast
qed

text \<open>
  Claim C4 as stated fails on a file whose first line does not decode: the claim
  gives \<^verbatim>\<open>None\<close>, and \<^verbatim>\<open>get_port\<close> lets the decoder's exception through.
\<close>

theorem get_port_unparseable_raises:
  "sample_files (''C:/'', [''broken'', ''portnum.dat'']) = Some (File ''not json'')
   \<and> load_dict_sample (readline ''not json'') = Inl JSONDecodeError
   \<and> get_port load_dict_sample sample_files (''C:/'', [''broken'', ''portnum.dat'']) 7 False
       = Inl JSONDecodeError
   \<and> get_port load_dict_sample sample_files (''C:/'', [''broken'', ''portnum.dat'']) 7 False
       \<noteq> Inr JNull"
  by (simp add: get_port_def sample_files_def load_dict_sample_def)

text \<open>
  Claim C5. For a file whose first line decodes to a dictionary with the key \<^verbatim>\<open>port\<close>,
  \<^verbatim>\<open>get_port\<close> with verification returns the port only when the dictionary has the key
  \<^verbatim>\<open>pid\<close> and its value equals the expected process id; a missing \<^verbatim>\<open>pid\<close> and a
  different \<^verbatim>\<open>pid\<close> both raise \<^verbatim>\<open>AssertionError\<close>, never give \<^verbatim>\<open>None\<close>.
\<close>

theorem get_port_verify:
  assumes "fs p = Some (File content)"
    and "load_dict (readline content) = Inr (JObject port_dict)"
    and "map_of port_dict ''port'' = Some port"
  shows "get_port load_dict fs p process_pid True =
     (case map_of port_dict ''pid'' of
        None \<Rightarrow> Inl AssertionError
      | Some v \<Rightarrow> if py_eq_int process_pid v then Inr port else Inl AssertionError)"
  using assms by (simp add: get_port_def split: option.splits)

text \<open>
  The theorem of C5 on the sample file system: the record with \<^verbatim>\<open>pid\<close> 7 read for the
  processes 7 and 8, and the record without \<^verbatim>\<open>pid\<close>.
\<close>

theorem get_port_verify_witness:
  "sample_files (''C:/'', [''full'', ''portnum.dat'']) = Some (File ''{\"pid\": 7, \"port\": 9000}'')
   \<and> load_dict_sample (readline ''{\"pid\": 7, \"port\": 9000}'')
       = Inr (JObject [(''pid'', JInt 7), (''port'', JInt 9000)])
   \<and> map_of [(''pid'', JInt 7), (''port'', JInt 9000)] ''port'' = Some (JInt 9000)
   \<and> get_port load_dict_sample sample_files (''C:/'', [''full'', ''portnum.dat'']) 7 True
       = Inr (JInt 9000)
   \<and> get_port load_dict_sample sample_files (''C:/'', [''full'', ''portnum.dat'']) 8 True
       = Inl AssertionError
   \<and> sample_files (''C:/'', [''companions'', ''portnum.dat'']) = Some (File ''{\"port\": 9000}'')
   \<and> load_dict_sample (readline ''{\"port\": 9000}'') = Inr (JObject [(''port'', JInt 9000)])
   \<and> map_of [(''port'', JInt 9000)] ''port'' = Some (JInt 9000)
   \<and> get_port load_dict_sample sample_files (''C:/'', [''companions'', ''portnum.dat'']) 7 True
       = Inl AssertionError"
proof -
  have full: "sample_files (''C:/'', [''full'', ''portnum.dat''])
      = Some (File ''{\"pid\": 7, \"port\": 9000}'')"
    by (simp add: sample_files_def)
  have full_line: "load_dict_sample (readline ''{\"pid\": 7, \"port\": 9000}'')
      = Inr (JObject [(''pid'', JInt 7), (''port'', JInt 9000)])"
    by (simp add: load_dict_sample_def)
  have full_key: "map_of [(''pid'', JInt 7), (''port'', JInt 9000)] ''port'' = Some (JInt 9000)"
    by simp
  have nopid: "sample_files (''C:/'', [''companions'', ''portnum.dat''])
      = Some (File ''{\"port\": 9000}'')"
    by (simp add: sample_files_def)
  have nopid_line: "load_dict_sample (readline ''{\"port\": 9000}'')
      = Inr (JObject [(''port'', JInt 9000)])"
    by (simp add: load_dict_sample_def)
  have nopid_key: "map_of [(''port'', JInt 9000)] ''port'' = Some (JInt 9000)" by simp
  note at_full = get_port_verify [where fs = sample_files and load_dict = load_dict_sample
      and p = "(''C:/'', [''full'', ''portnum.dat''])", OF full full_line full_key]
  note at_nopid = get_port_verify [where fs = sample_files and load_dict = load_dict_sample
      and p = "(''C:/'', [''companions'', ''portnum.dat''])", OF nopid nopid_line nopid_key]
  from full full_line full_key nopid nopid_line nopid_key
    at_full [of 7] at_full [of 8] at_nopid [of 7]
  show ?thesis by simp
qed

section \<open>Properties of check_for_companions\<close>

lemma next_named_absent:
  "list_all (\<lambda>p. case name p of None \<Rightarrow> False | Some n \<Rightarrow> \<not> py_in_str x n) ps \<Longrightarrow>
   next_named x ps = Inr (None, [])"
  by (induction ps) (auto split: option.splits)

text \<open>
  When no running process has the first name of \<open>COMPANIONS_EXES\<close> in its name, the
  first search uses up the iterator, and neither the second name nor the development
  executable is ever found: the result is \<^verbatim>\<open>None\<close> whatever else runs.
\<close>

lemma check_for_companions_without_first_name:
  assumes "list_all (\<lambda>p. case name p of None \<Rightarrow> False
             | Some n \<Rightarrow> \<not> py_in_str ''CompanionsMicroServer64.exe'' n) (processes sys)"
  shows "check_for_companions load_dict sys verify = Inr JNull"
  using next_named_absent [OF assms]
  by (simp add: check_for_companions_def COMPANIONS_EXES_def companion_port_def
      split: option.splits)

text \<open>
  Claim C8 describes the documented order (the first executable name, then the second,
  then the development executable with its \<^verbatim>\<open>qrg\<close> directory), and the code misses it:
  \<^verbatim>\<open>processes\<close> is an iterator that the search for the first name uses up. On a machine
  that runs only \<^verbatim>\<open>CompanionsServer64.exe\<close>, with a valid registry file beside it, the
  result is \<^verbatim>\<open>None\<close>, not the port 9000; likewise on a machine that runs only
  \<^verbatim>\<open>allegro.exe\<close> with a \<^verbatim>\<open>qrg\<close> directory and a valid registry file. The same file is
  read when the process has the first name.
\<close>

theorem check_for_companions_misses_second_name:
  "check_for_companions load_dict_sample server_only False = Inr JNull
   \<and> get_port load_dict_sample sample_files (''C:/'', [''companions'', ''portnum.dat'']) 7 False
       = Inr (JInt 9000)
   \<and> check_for_companions load_dict_sample micro_server_only False = Inr (JInt 9000)
   \<and> check_for_companions load_dict_sample allegro_only False = Inr JNull
   \<and> get_port load_dict_sample sample_files
        (''C:/'', [''qrg'', ''companions'', ''v1'', ''portnum.dat'']) 7 False
       = Inr (JInt 9000)"
  by (simp add: check_for_companions_def COMPANIONS_EXES_def companion_port_def PORTNUM_def
      with_name_def get_port_def server_only_def micro_server_only_def allegro_only_def
      sample_files_def load_dict_sample_def)

section \<open>Properties of connect and send\<close>

text \<open>
  Claim C7, as the code has it. \<^verbatim>\<open>connect\<close> creates a fresh socket and stores it at once.
  When connecting succeeds the writer is stored too and the call returns. When
  connecting raises \<^verbatim>\<open>OSError\<close>, the error is logged, the new socket stays stored and
  open, and the call raises \<^verbatim>\<open>AssertionError\<close> if no writer was stored before and
  returns otherwise. When creating the socket raises \<^verbatim>\<open>OSError\<close>, nothing changes and
  the call ends the same way.
\<close>

theorem connect_cases:
  "(socket_raises io = None \<and> connect_raises io = None \<longrightarrow>
      connect io a =
        (Inr (),
         a\<lparr>send_socket := Some (next_fd a), out := Some (next_fd a),
           opened := insert (next_fd a) (opened a), next_fd := Suc (next_fd a),
           trace := trace a @ [SocketCreated (next_fd a), Connected (next_fd a)]\<rparr>))
   \<and> (socket_raises io = None \<and> connect_raises io = Some OSError \<longrightarrow>
      connect io a =
        (if out a = None then Inl AssertionError else Inr (),
         a\<lparr>send_socket := Some (next_fd a),
           opened := insert (next_fd a) (opened a), next_fd := Suc (next_fd a),
           trace := trace a @ [SocketCreated (next_fd a)]\<rparr>))
   \<and> (socket_raises io = Some OSError \<longrightarrow>
      connect io a = (if out a = None then Inl AssertionError else Inr (), a))"
  by (simp add: connect_def assert_out_def Let_def)

text \<open>
  The theorem of C7 on the fresh agent: a connection that is made, a connection that
  is refused, and a socket that cannot be created.
\<close>

theorem connect_cases_witness:
  "socket_raises all_return = None \<and> connect_raises all_return = None
   \<and> connect all_return init_agent =
        (Inr (),
         init_agent\<lparr>send_socket := Some 1, out := Some 1, opened := {0, 1}, next_fd := 2,
           trace := [SocketCreated 0, SocketCreated 1, Connected 1]\<rparr>)
   \<and> socket_raises (all_return\<lparr>connect_raises := Some OSError\<rparr>) = None
   \<and> connect_raises (all_return\<lparr>connect_raises := Some OSError\<rparr>) = Some OSError
   \<and> connect (all_return\<lparr>connect_raises := Some OSError\<rparr>) init_agent =
        (Inl AssertionError,
         init_agent\<lparr>send_socket := Some 1, opened := {0, 1}, next_fd := 2,
           trace := [SocketCreated 0, SocketCreated 1]\<rparr>)
   \<and> socket_raises (all_return\<lparr>socket_raises := Some OSError\<rparr>) = Some OSError
   \<and> connect (all_return\<lparr>socket_raises := Some OSError\<rparr>) init_agent
        = (Inl AssertionError, init_agent)"
proof -
  have ok: "socket_raises all_return = None \<and> connect_raises all_return = None"
    by (simp add: all_return_def)
  have refused: "socket_raises (all_return\<lparr>connect_raises := Some OSError\<rparr>) = None
      \<and> connect_raises (all_return\<lparr>connect_raises := Some OSError\<rparr>) = Some OSError"
    by (simp add: all_return_def)
  have none: "socket_raises (all_return\<lparr>socket_raises := Some OSError\<rparr>) = Some OSError"
    by simp
  have fresh: "next_fd init_agent = 1 \<and> out init_agent = None \<and> opened init_agent = {0}
      \<and> trace init_agent = [SocketCreated 0]"
    by (simp add: init_agent_def)
  from ok refused none fresh
    connect_cases [of all_return init_agent]
    connect_cases [of "all_return\<lparr>connect_raises := Some OSError\<rparr>" init_agent]
    connect_cases [of "all_return\<lparr>socket_raises := Some OSError\<rparr>" init_agent]
  show ?thesis by (simp add: insert_commute)
qed

text \<open>
  Claim C7 as stated fails when the connection is refused: the caller gets
  \<^verbatim>\<open>AssertionError\<close>, not the socket error, and the socket created for the attempt stays
  stored in \<^verbatim>\<open>send_socket\<close>, open.
\<close>

theorem connect_refused_keeps_socket:
  "fst (connect (all_return\<lparr>connect_raises := Some OSError\<rparr>) init_agent) = Inl AssertionError
   \<and> fst (connect (all_return\<lparr>connect_raises := Some OSError\<rparr>) init_agent) \<noteq> Inl OSError
   \<and> send_socket (snd (connect (all_return\<lparr>connect_raises := Some OSError\<rparr>) init_agent))
       = Some 1
   \<and> 1 \<in> opened (snd (connect (all_return\<lparr>connect_raises := Some OSError\<rparr>) init_agent))"
  by (simp add: connect_def assert_out_def all_return_def init_agent_def Let_def)






section \<open>Properties of the agent's state\<close>










end
